theory Spec2Isabelle
  imports Complex_Main
begin

section \<open>Shared data model of \<open>levanter/trainer.py\<close>\<close>

text \<open>
  Exceptions of the Python source are values: every \<open>raise\<close>, failed \<open>assert\<close>,
  division by zero and read of an unbound local is a branch returning \<open>Inl\<close>.
\<close>

datatype error =
    ValueError string
  | AssertionError string
  | ZeroDivisionError
  | UnboundLocalError string
  | RuntimeError string
  | OverflowError string

subsection \<open>Arrays, leaves and the precision policy\<close>

text \<open>
  A model is a tree whose leaves are arrays (with a dtype) or other Python objects. An
  array carries an identifier that stands for the array and its numeric content, which is
  not modelled: a cast changes the dtype tag only. \<open>ShapeDtypeStruct\<close> is the abstract
  leaf that shape evaluation produces.
\<close>

datatype dtype = Float16 | BFloat16 | Float32 | Float64 | Int32 | Bool8

datatype leaf = Arr dtype nat | Obj nat | ShapeDtypeStruct dtype

text \<open>\<open>jnp.issubdtype(d, jnp.floating)\<close>\<close>

fun is_floating :: "dtype \<Rightarrow> bool" where
  "is_floating Float16 = True"
| "is_floating BFloat16 = True"
| "is_floating Float32 = True"
| "is_floating Float64 = True"
| "is_floating _ = False"

text \<open>\<open>jmp.Policy\<close>: the three target precisions.\<close>

record Policy =
  param_dtype :: dtype
  compute_dtype :: dtype
  output_dtype :: dtype

subsection \<open>Parameter trees\<close>

text \<open>
  A pytree: a leaf, \<open>None\<close> (a node without children, never a leaf), or a container
  node with its children in order.
\<close>

datatype 'a pytree = PLeaf 'a | PNone | PNode "'a pytree list"

text \<open>
  \<open>jax.tree_util.tree_map(f, prefix, tree)\<close>: \<open>f\<close> is applied at every leaf of the
  first tree to the subtree of the second tree found at that place; the second tree must
  have the first as a prefix, or the call raises.
\<close>

fun tree_map2 ::
    "('a \<Rightarrow> 'b pytree \<Rightarrow> error + 'c pytree) \<Rightarrow> 'a pytree \<Rightarrow> 'b pytree \<Rightarrow> error + 'c pytree"
  and tree_map2_list ::
    "('a \<Rightarrow> 'b pytree \<Rightarrow> error + 'c pytree) \<Rightarrow> 'a pytree list \<Rightarrow> 'b pytree list
       \<Rightarrow> error + 'c pytree list"
where
  "tree_map2 f (PLeaf a) t = f a t"
| "tree_map2 f PNone PNone = Inr PNone"
| "tree_map2 f (PNode ps) (PNode ts) =
     (case tree_map2_list f ps ts of Inl e \<Rightarrow> Inl e | Inr rs \<Rightarrow> Inr (PNode rs))"
| "tree_map2 f _ _ = Inl (ValueError ''tree structure mismatch'')"
| "tree_map2_list f [] [] = Inr []"
| "tree_map2_list f (p # ps) (t # ts) =
     (case tree_map2 f p t of
        Inl e \<Rightarrow> Inl e
      | Inr r \<Rightarrow> (case tree_map2_list f ps ts of Inl e \<Rightarrow> Inl e | Inr rs \<Rightarrow> Inr (r # rs)))"
| "tree_map2_list f _ _ = Inl (ValueError ''tree structure mismatch'')"

text \<open>
  A leaf of a filter specification (\<open>PyTree[FilterSpec]\<close>): a boolean, a callable on
  leaves, or any other object.
\<close>

datatype fspec = FBool bool | FCallable "leaf \<Rightarrow> bool" | FOther nat

text \<open>
  Modelled from the spec: \<open>eqx.partition\<close> and \<open>eqx.combine\<close> belong to the equinox
  library, which is not under src/. Spec 4.2: for every leaf, evaluate the predicate (a
  constant, or a per-leaf function); leaves passing go to the first half, with the other
  half's leaf replaced by an empty placeholder, leaves failing go to the second half.
  The mask is a prefix of the model: a mask leaf covers the whole subtree at its place.
\<close>

fun make_filter_tree :: "fspec \<Rightarrow> leaf pytree \<Rightarrow> error + bool pytree" where
  "make_filter_tree (FBool b) arg = Inr (map_pytree (\<lambda>_. b) arg)"
| "make_filter_tree (FCallable p) arg = Inr (map_pytree p arg)"
| "make_filter_tree (FOther _) arg =
     Inl (ValueError ''filter_spec must consist of booleans and callables only'')"

definition partition ::
    "leaf pytree \<Rightarrow> fspec pytree \<Rightarrow> error + (leaf pytree \<times> leaf pytree)" where
  "partition pytree filter_spec =
     (case tree_map2 make_filter_tree filter_spec pytree of
        Inl e \<Rightarrow> Inl e
      | Inr filter_tree \<Rightarrow>
          (case tree_map2 (\<lambda>mask x. Inr (if mask then x else PNone)) filter_tree pytree of
             Inl e \<Rightarrow> Inl e
           | Inr left \<Rightarrow>
               (case tree_map2 (\<lambda>mask x. Inr (if mask then PNone else x)) filter_tree pytree of
                  Inl e \<Rightarrow> Inl e
                | Inr right \<Rightarrow> Inr (left, right))))"

text \<open>
  Modelled from the spec: \<open>combine(trainable, nonTrainable)\<close> merges two congruent
  structures, leaf by leaf preferring whichever side holds a non-placeholder value
  (spec 4.2). The placeholder \<open>None\<close> of the first tree is a leaf of the traversal, so
  the second tree's subtree is taken whole there; congruence is checked at container nodes.
\<close>

fun combine :: "'a pytree \<Rightarrow> 'a pytree \<Rightarrow> error + 'a pytree"
  and combine_list :: "'a pytree list \<Rightarrow> 'a pytree list \<Rightarrow> error + 'a pytree list"
where
  "combine PNone n = Inr n"
| "combine (PLeaf x) n = Inr (PLeaf x)"
| "combine (PNode ts) (PNode ns) =
     (case combine_list ts ns of Inl e \<Rightarrow> Inl e | Inr rs \<Rightarrow> Inr (PNode rs))"
| "combine (PNode ts) _ = Inl (ValueError ''tree structure mismatch'')"
| "combine_list [] [] = Inr []"
| "combine_list (t # ts) (n # ns) =
     (case combine t n of
        Inl e \<Rightarrow> Inl e
      | Inr r \<Rightarrow> (case combine_list ts ns of Inl e \<Rightarrow> Inl e | Inr rs \<Rightarrow> Inr (r # rs)))"
| "combine_list _ _ = Inl (ValueError ''tree structure mismatch'')"

text \<open>The leaf of a tree at a path of child positions, if there is one.\<close>

fun leaf_at :: "'a pytree \<Rightarrow> nat list \<Rightarrow> 'a option" where
  "leaf_at (PLeaf x) [] = Some x"
| "leaf_at (PNode ts) (i # path) = (if i < length ts then leaf_at (ts ! i) path else None)"
| "leaf_at _ _ = None"

subsection \<open>Training state, step results and hooks\<close>

datatype PRNGKey = Key nat

record TrainerState =
  step :: int
  model :: "leaf pytree"
  opt_state :: "leaf pytree"
  training_key :: PRNGKey

record StepInfo =
  state :: TrainerState
  loss :: real
  step_duration :: real

text \<open>\<open>StepInfo.step\<close>: the step that was just completed.\<close>

definition StepInfo_step :: "StepInfo \<Rightarrow> int" where
  "StepInfo_step info = step (state info) - 1"

definition next_step :: "StepInfo \<Rightarrow> int" where
  "next_step info = step (state info)"

text \<open>
  A callback acts on the world outside the trainer (logs, files, progress bars), of type
  \<open>'w\<close>, and may raise: it returns the world it leaves behind and the exception, if any.
\<close>

record 'w Hook =
  fn :: "StepInfo \<Rightarrow> 'w \<Rightarrow> 'w \<times> error option"
  every :: int

text \<open>
  The test \<open>force or info.step % hook.every == 0\<close>: \<open>or\<close> short-circuits, and
  \<open>%\<close> raises on a zero divisor. Python's \<open>%\<close> on integers is HOL's \<open>mod\<close> (the
  result has the sign of the divisor).
\<close>

definition hook_due :: "bool \<Rightarrow> StepInfo \<Rightarrow> 'w Hook \<Rightarrow> error + bool" where
  "hook_due force info hook =
     (if force then Inr True
      else if every hook = 0 then Inl ZeroDivisionError
      else Inr (StepInfo_step info mod every hook = 0))"

fun run_hooks :: "'w Hook list \<Rightarrow> StepInfo \<Rightarrow> bool \<Rightarrow> 'w \<Rightarrow> 'w \<times> error option" where
  "run_hooks [] info force w = (w, None)"
| "run_hooks (hook # hooks) info force w =
     (case hook_due force info hook of
        Inl e \<Rightarrow> (w, Some e)
      | Inr False \<Rightarrow> run_hooks hooks info force w
      | Inr True \<Rightarrow>
          (case fn hook info w of
             (w', Some e) \<Rightarrow> (w', Some e)
           | (w', None) \<Rightarrow> run_hooks hooks info force w'))"

text \<open>\<open>add_hook(fn, every=every)\<close> appends to the list.\<close>

definition add_hook :: "'w Hook list \<Rightarrow> (StepInfo \<Rightarrow> 'w \<Rightarrow> 'w \<times> error option) \<Rightarrow> int \<Rightarrow> 'w Hook list" where
  "add_hook hooks f n = hooks @ [\<lparr>fn = f, every = n\<rparr>]"

text \<open>
  Calling a list of callbacks one after the other, up to the first that raises: the
  reference against which \<open>run_hooks\<close> is stated.
\<close>

fun call_all :: "'w Hook list \<Rightarrow> StepInfo \<Rightarrow> 'w \<Rightarrow> 'w \<times> error option" where
  "call_all [] info w = (w, None)"
| "call_all (hook # hooks) info w =
     (case fn hook info w of
        (w', Some e) \<Rightarrow> (w', Some e)
      | (w', None) \<Rightarrow> call_all hooks info w')"

text \<open>A callback that appends its name to a trace, and an example step result.\<close>

definition log_call :: "string \<Rightarrow> StepInfo \<Rightarrow> string list \<Rightarrow> string list \<times> error option" where
  "log_call name info w = (w @ [name], None)"

definition example_info :: "int \<Rightarrow> StepInfo" where
  "example_info n =
     \<lparr>state = \<lparr>step = n, model = PNone, opt_state = PNone, training_key = Key 0\<rparr>,
      loss = 0, step_duration = 0\<rparr>"

subsection \<open>Axis mapping (\<open>TrainerConfig.compute_axis_mapping\<close>, \<open>parameter_axis_mapping\<close>)\<close>

type_synonym ResourceMapping = "string \<rightharpoonup> string"

text \<open>
  \<open>ResourceAxis.MODEL\<close> and \<open>ResourceAxis.DATA\<close> are constants of the partitioning
  library; the mapping code only stores them, so their spelling is immaterial here.
\<close>

definition ResourceAxis_MODEL :: string where
  "ResourceAxis_MODEL = ''model''"

definition ResourceAxis_DATA :: string where
  "ResourceAxis_DATA = ''data''"

text \<open>\<open>fsdp_axis: Optional[Union[str, List[str]]]\<close>\<close>

datatype fsdp_axis_t = FsdpNone | FsdpStr string | FsdpList "string list"

text \<open>
  What \<open>checkpointer.load_checkpoint\<close> returns when it finds a checkpoint: the
  trainable model, the pair of optimizer state and key, and the completed step.
\<close>

type_synonym checkpoint = "leaf pytree \<times> (leaf pytree \<times> PRNGKey) \<times> int"

text \<open>
  The fields of \<open>TrainerConfig\<close> read by the modelled methods. The two
  \<open>Mapping[str, str]\<close> fields are kept as item lists in insertion order, which is
  what \<open>dict(...)\<close> and \<open>.items()\<close> traverse. \<open>checkpointer\<close> stands for
  \<open>self.checkpointer.create(run_id).load_checkpoint\<close>, a collaborator: given the two
  templates and the path it returns a checkpoint, \<open>None\<close>, or raises.
\<close>

record TrainerConfig =
  mp :: Policy
  batch_axis :: "string option"
  fsdp_axis :: fsdp_axis_t
  tensor_parallel_axes :: "string list option"
  axis_resources :: "(string \<times> string) list"
  parameter_axis_resources :: "(string \<times> string) list"
  num_train_steps :: int
  checkpointer :: "leaf pytree \<Rightarrow> leaf pytree \<times> PRNGKey \<Rightarrow> string \<Rightarrow> error + checkpoint option"
  load_checkpoint :: "bool option"
  load_checkpoint_path :: "string option"

text \<open>\<open>dict(items)\<close>: insert the items left to right, a later item replacing an earlier one.\<close>

definition dict :: "(string \<times> string) list \<Rightarrow> ResourceMapping" where
  "dict items = fold (\<lambda>(k, v) m. m(k \<mapsto> v)) items Map.empty"

text \<open>\<open>for axis in axes: mapping[axis] = resource\<close>\<close>

definition set_all :: "string list \<Rightarrow> string \<Rightarrow> ResourceMapping \<Rightarrow> ResourceMapping" where
  "set_all axes resource mapping = fold (\<lambda>axis m. m(axis \<mapsto> resource)) axes mapping"

definition tp_axes :: "TrainerConfig \<Rightarrow> string list" where
  "tp_axes cfg = (case tensor_parallel_axes cfg of None \<Rightarrow> [] | Some xs \<Rightarrow> xs)"

definition compute_axis_mapping :: "TrainerConfig \<Rightarrow> ResourceMapping" where
  "compute_axis_mapping cfg =
     (let axes_to_return = dict (axis_resources cfg);
          axes_to_return = set_all (tp_axes cfg) ResourceAxis_MODEL axes_to_return
      in case batch_axis cfg of
           None \<Rightarrow> axes_to_return
         | Some b \<Rightarrow> axes_to_return(b \<mapsto> ResourceAxis_DATA))"

definition parameter_axis_mapping :: "TrainerConfig \<Rightarrow> ResourceMapping" where
  "parameter_axis_mapping cfg =
     (let mapping = compute_axis_mapping cfg;
          mapping = fold (\<lambda>(axis, resource) m. m(axis \<mapsto> resource))
                      (parameter_axis_resources cfg) mapping
      in case fsdp_axis cfg of
           FsdpStr a \<Rightarrow> mapping(a \<mapsto> ResourceAxis_DATA)
         | FsdpList axes \<Rightarrow> set_all axes ResourceAxis_DATA mapping
         | FsdpNone \<Rightarrow> mapping)"

text \<open>The names the FSDP rule forces, for stating the precedence.\<close>

definition fsdp_names :: "TrainerConfig \<Rightarrow> string list" where
  "fsdp_names cfg =
     (case fsdp_axis cfg of FsdpNone \<Rightarrow> [] | FsdpStr a \<Rightarrow> [a] | FsdpList axes \<Rightarrow> axes)"

subsection \<open>The trainer and its trainable partition\<close>

text \<open>
  The fields of \<open>Trainer\<close>, with the collaborators it calls as parameters: the optimizer
  (\<open>init\<close>, \<open>update\<close>), the raw loss function, the gradient accumulator,
  \<open>eqx.apply_updates\<close>, \<open>inference_mode\<close>, \<open>jax.random.split\<close>, the wall clock read
  by \<open>capture_time\<close> (indexed by the step), and \<open>is_inexact_arrayish\<close> of
  \<open>levanter.utils.jax_utils\<close>. \<open>'b\<close> is the type of batches, \<open>'w\<close> the world the
  hooks act on.
\<close>

record ('b, 'w) Trainer =
  config :: TrainerConfig
  is_trainable_param :: "fspec pytree"
  is_inexact_arrayish :: "leaf \<Rightarrow> bool"
  optimizer_init :: "leaf pytree \<Rightarrow> leaf pytree"
  optimizer_update ::
    "leaf pytree \<Rightarrow> leaf pytree \<Rightarrow> leaf pytree \<Rightarrow> error + (leaf pytree \<times> leaf pytree)"
  raw_loss_function :: "leaf pytree \<Rightarrow> 'b \<Rightarrow> PRNGKey \<Rightarrow> error + real"
  accumulate_gradients_sharded ::
    "(leaf pytree \<Rightarrow> 'b \<Rightarrow> PRNGKey \<Rightarrow> error + real) \<Rightarrow> leaf pytree \<Rightarrow> 'b \<Rightarrow> PRNGKey
       \<Rightarrow> error + (real \<times> leaf pytree)"
  apply_updates :: "leaf pytree \<Rightarrow> leaf pytree \<Rightarrow> error + leaf pytree"
  inference_mode :: "leaf pytree \<Rightarrow> bool \<Rightarrow> leaf pytree"
  random_split :: "PRNGKey \<Rightarrow> PRNGKey \<times> PRNGKey"
  step_time :: "int \<Rightarrow> real"
  hooks :: "'w Hook list"

text \<open>
  \<open>trainable_and_diffable\<close>, the local function of \<open>partition_trainable_params\<close>: the
  tests are \<open>callable(pred)\<close>, then \<open>pred is True\<close>, then everything else.
\<close>

fun trainable_and_diffable :: "(leaf \<Rightarrow> bool) \<Rightarrow> fspec \<Rightarrow> fspec" where
  "trainable_and_diffable inexact (FCallable pred) = FCallable (\<lambda>x. pred x \<and> inexact x)"
| "trainable_and_diffable inexact (FBool True) = FCallable inexact"
| "trainable_and_diffable inexact pred = pred"

definition partition_trainable_params ::
    "('b, 'w) Trainer \<Rightarrow> leaf pytree \<Rightarrow> error + (leaf pytree \<times> leaf pytree)" where
  "partition_trainable_params tr mdl =
     (let combined_mask =
            map_pytree (trainable_and_diffable (is_inexact_arrayish tr)) (is_trainable_param tr)
      in partition mdl combined_mask)"

definition trainable_params_only :: "('b, 'w) Trainer \<Rightarrow> leaf pytree \<Rightarrow> error + leaf pytree" where
  "trainable_params_only tr mdl =
     (case partition_trainable_params tr mdl of
        Inl e \<Rightarrow> Inl e
      | Inr (trainable, non_trainable) \<Rightarrow> Inr trainable)"

text \<open>
  The masks the partition accepts for a model: every mask leaf is a boolean or a callable,
  and the mask is a prefix of the model.
\<close>

fun mask_ok :: "fspec pytree \<Rightarrow> 'a pytree \<Rightarrow> bool"
  and mask_ok_list :: "fspec pytree list \<Rightarrow> 'a pytree list \<Rightarrow> bool"
where
  "mask_ok (PLeaf (FOther _)) t = False"
| "mask_ok (PLeaf _) t = True"
| "mask_ok PNone PNone = True"
| "mask_ok (PNode ps) (PNode ts) = mask_ok_list ps ts"
| "mask_ok _ _ = False"
| "mask_ok_list [] [] = True"
| "mask_ok_list (p # ps) (t # ts) = (mask_ok p t \<and> mask_ok_list ps ts)"
| "mask_ok_list _ _ = False"

text \<open>Two trees of the same structure, leaf for leaf.\<close>

fun same_shape :: "'a pytree \<Rightarrow> 'b pytree \<Rightarrow> bool"
  and same_shape_list :: "'a pytree list \<Rightarrow> 'b pytree list \<Rightarrow> bool"
where
  "same_shape (PLeaf _) (PLeaf _) = True"
| "same_shape PNone PNone = True"
| "same_shape (PNode ps) (PNode ts) = same_shape_list ps ts"
| "same_shape _ _ = False"
| "same_shape_list [] [] = True"
| "same_shape_list (p # ps) (t # ts) = (same_shape p t \<and> same_shape_list ps ts)"
| "same_shape_list _ _ = False"

subsection \<open>Precision casts and initialisation\<close>

text \<open>
  Modelled from the spec: \<open>jmp.Policy.cast_to_param\<close> and \<open>cast_to_compute\<close> belong
  to the jmp library, which is not under src/. Spec 4.3: leaves are cast to the
  \<^emph>\<open>param\<close> or to the \<^emph>\<open>compute\<close> precision of the policy. A cast is a
  \<open>tree_map\<close> that changes the dtype of floating-point arrays and leaves every other
  leaf as it is.
\<close>

fun cast_leaf :: "dtype \<Rightarrow> leaf \<Rightarrow> leaf" where
  "cast_leaf d (Arr d0 v) = (if is_floating d0 then Arr d v else Arr d0 v)"
| "cast_leaf d (ShapeDtypeStruct d0) =
     (if is_floating d0 then ShapeDtypeStruct d else ShapeDtypeStruct d0)"
| "cast_leaf d (Obj v) = Obj v"

definition cast_to_param :: "Policy \<Rightarrow> leaf pytree \<Rightarrow> leaf pytree" where
  "cast_to_param p t = map_pytree (cast_leaf (param_dtype p)) t"

definition cast_to_compute :: "Policy \<Rightarrow> leaf pytree \<Rightarrow> leaf pytree" where
  "cast_to_compute p t = map_pytree (cast_leaf (compute_dtype p)) t"

text \<open>
  \<open>_init_model_and_opt_state\<close> and \<open>_init_non_trainable_params\<close>. The initializer
  is a zero-argument callable that returns a model or raises.
\<close>

definition init_model_and_opt_state ::
    "('b, 'w) Trainer \<Rightarrow> (unit \<Rightarrow> error + leaf pytree) \<Rightarrow> error + (leaf pytree \<times> leaf pytree)" where
  "init_model_and_opt_state tr model_init =
     (case model_init () of
        Inl e \<Rightarrow> Inl e
      | Inr mdl \<Rightarrow>
          (case partition_trainable_params tr mdl of
             Inl e \<Rightarrow> Inl e
           | Inr (trainable, non_trainable) \<Rightarrow>
               (let trainable = cast_to_param (mp (config tr)) trainable;
                    non_trainable = cast_to_compute (mp (config tr)) non_trainable
                in case combine trainable non_trainable of
                     Inl e \<Rightarrow> Inl e
                   | Inr mdl' \<Rightarrow> Inr (mdl', optimizer_init tr trainable))))"

definition init_non_trainable_params ::
    "('b, 'w) Trainer \<Rightarrow> (unit \<Rightarrow> error + leaf pytree) \<Rightarrow> error + leaf pytree" where
  "init_non_trainable_params tr model_init =
     (case model_init () of
        Inl e \<Rightarrow> Inl e
      | Inr mdl \<Rightarrow>
          (case partition_trainable_params tr mdl of
             Inl e \<Rightarrow> Inl e
           | Inr (trainable, non_trainable) \<Rightarrow>
               Inr (cast_to_compute (mp (config tr)) non_trainable)))"

text \<open>
  \<open>eqx.filter_eval_shape(f, x)\<close> evaluates \<open>f(x)\<close> abstractly: the result has the
  structure and dtypes of \<open>f(x)\<close>, with every array replaced by its shape.
\<close>

fun shape_of_leaf :: "leaf \<Rightarrow> leaf" where
  "shape_of_leaf (Arr d v) = ShapeDtypeStruct d"
| "shape_of_leaf l = l"

definition filter_eval_shape ::
    "('a \<Rightarrow> error + (leaf pytree \<times> leaf pytree)) \<Rightarrow> 'a \<Rightarrow> error + (leaf pytree \<times> leaf pytree)" where
  "filter_eval_shape f x =
     (case f x of
        Inl e \<Rightarrow> Inl e
      | Inr (a, b) \<Rightarrow> Inr (map_pytree shape_of_leaf a, map_pytree shape_of_leaf b))"

subsection \<open>Checkpoint resume (\<open>maybe_load_checkpoint\<close>, \<open>initial_state\<close>)\<close>

definition maybe_load_checkpoint ::
    "TrainerConfig \<Rightarrow> leaf pytree \<Rightarrow> leaf pytree \<times> PRNGKey \<Rightarrow> error + checkpoint option" where
  "maybe_load_checkpoint cfg template training_state =
     (if load_checkpoint cfg \<noteq> Some False then
        (case load_checkpoint_path cfg of
           None \<Rightarrow>
             Inl (AssertionError ''load_checkpoint_path should have been set during initialization'')
         | Some path \<Rightarrow>
             (case checkpointer cfg template training_state path of
                Inl e \<Rightarrow> Inl e
              | Inr ckpt \<Rightarrow>
                  if ckpt = None \<and> load_checkpoint cfg = Some True
                  then Inl (ValueError (''Could not load checkpoint from '' @ path))
                  else Inr ckpt))
      else Inr None)"

text \<open>
  \<open>initial_state\<close> after the argument check, in the two parts of the source:
  the lookup of a checkpoint (the shapes, the trainable part of the model shape, the
  call of \<open>maybe_load_checkpoint\<close>), then the branch on what was found. \<open>supplied\<close> is
  the concrete model if one was given, \<open>model_init\<close> the initializer (the given one, or
  the partial that returns the given model).
\<close>

definition initial_state_ckpt ::
    "('b, 'w) Trainer \<Rightarrow> PRNGKey \<Rightarrow> (unit \<Rightarrow> error + leaf pytree) \<Rightarrow> error + checkpoint option" where
  "initial_state_ckpt tr key0 model_init =
     (case filter_eval_shape (init_model_and_opt_state tr) model_init of
        Inl e \<Rightarrow> Inl e
      | Inr (model_shape, opt_state_shape) \<Rightarrow>
          (case trainable_params_only tr model_shape of
             Inl e \<Rightarrow> Inl e
           | Inr trainable_model_shape \<Rightarrow>
               maybe_load_checkpoint (config tr) trainable_model_shape (opt_state_shape, key0)))"

definition initial_state_from ::
    "('b, 'w) Trainer \<Rightarrow> PRNGKey \<Rightarrow> leaf pytree option \<Rightarrow> (unit \<Rightarrow> error + leaf pytree)
       \<Rightarrow> error + TrainerState" where
  "initial_state_from tr key0 supplied model_init =
     (case initial_state_ckpt tr key0 model_init of
        Inl e \<Rightarrow> Inl e
      | Inr (Some (trainable_model, (opt_state', key'), completed_step)) \<Rightarrow>
          (case supplied of
             Some mdl \<Rightarrow>
               (case combine trainable_model mdl of
                  Inl e \<Rightarrow> Inl e
                | Inr mdl' \<Rightarrow>
                    Inr \<lparr>step = completed_step + 1, model = mdl', opt_state = opt_state',
                         training_key = key'\<rparr>)
           | None \<Rightarrow>
               (case init_non_trainable_params tr model_init of
                  Inl e \<Rightarrow> Inl e
                | Inr non_trainable \<Rightarrow>
                    (case combine trainable_model non_trainable of
                       Inl e \<Rightarrow> Inl e
                     | Inr mdl' \<Rightarrow>
                         Inr \<lparr>step = completed_step + 1, model = mdl', opt_state = opt_state',
                              training_key = key'\<rparr>)))
      | Inr None \<Rightarrow>
          (case init_model_and_opt_state tr model_init of
             Inl e \<Rightarrow> Inl e
           | Inr (mdl', opt_state') \<Rightarrow>
               Inr \<lparr>step = 0, model = mdl', opt_state = opt_state', training_key = key0\<rparr>))"

fun initial_state ::
    "('b, 'w) Trainer \<Rightarrow> PRNGKey \<Rightarrow> leaf pytree option \<Rightarrow> (unit \<Rightarrow> error + leaf pytree) option
       \<Rightarrow> error + TrainerState" where
  "initial_state tr key0 (Some mdl) (Some model_init) =
     Inl (ValueError ''only one of model and model_init should be specified'')"
| "initial_state tr key0 None None =
     Inl (ValueError ''one of model and model_init must be specified'')"
| "initial_state tr key0 (Some mdl) None = initial_state_from tr key0 (Some mdl) (\<lambda>_. Inr mdl)"
| "initial_state tr key0 None (Some model_init) = initial_state_from tr key0 None model_init"

subsection \<open>The step engine (\<open>train_step\<close>, \<open>training_steps\<close>, \<open>train\<close>)\<close>

text \<open>\<open>loss_fn\<close>: the model is cast to compute precision, then the raw loss is called.\<close>

definition loss_fn :: "('b, 'w) Trainer \<Rightarrow> leaf pytree \<Rightarrow> 'b \<Rightarrow> PRNGKey \<Rightarrow> error + real" where
  "loss_fn tr mdl batch key = raw_loss_function tr (cast_to_compute (mp (config tr)) mdl) batch key"

text \<open>
  Arrays on the device. The identifier of an \<open>Arr\<close> leaf names the array. The device
  state records the next free identifier and the arrays that have been deleted; passing a
  deleted array to a compiled function raises.
\<close>

record device =
  next_array :: nat
  deleted :: "nat set"

fun arrays_of :: "leaf pytree \<Rightarrow> nat set"
  and arrays_of_list :: "leaf pytree list \<Rightarrow> nat set"
where
  "arrays_of (PLeaf (Arr d i)) = {i}"
| "arrays_of (PLeaf _) = {}"
| "arrays_of PNone = {}"
| "arrays_of (PNode ts) = arrays_of_list ts"
| "arrays_of_list [] = {}"
| "arrays_of_list (t # ts) = arrays_of t \<union> arrays_of_list ts"

text \<open>The arrays a compiled function returns are new arrays: they get the next identifiers.\<close>

fun new_arrays :: "nat \<Rightarrow> leaf pytree \<Rightarrow> leaf pytree \<times> nat"
  and new_arrays_list :: "nat \<Rightarrow> leaf pytree list \<Rightarrow> leaf pytree list \<times> nat"
where
  "new_arrays n (PLeaf (Arr d i)) = (PLeaf (Arr d n), Suc n)"
| "new_arrays n (PLeaf l) = (PLeaf l, n)"
| "new_arrays n PNone = (PNone, n)"
| "new_arrays n (PNode ts) = (case new_arrays_list n ts of (ts', n') \<Rightarrow> (PNode ts', n'))"
| "new_arrays_list n [] = ([], n)"
| "new_arrays_list n (t # ts) =
     (case new_arrays n t of
        (t', n') \<Rightarrow> (case new_arrays_list n' ts of (ts', n'') \<Rightarrow> (t' # ts', n'')))"

text \<open>
  \<open>named_jit(..., donate_args=(True, True))\<close> around a function of the model and the
  optimizer state: the two arguments are donated. The call raises if one of their arrays
  has been deleted; when the function returns, its results are new arrays and every array
  of the two donated arguments is deleted. When the function raises, the device is left
  as it was.
\<close>

definition named_jit_donate ::
    "(leaf pytree \<Rightarrow> leaf pytree \<Rightarrow> error + (real \<times> leaf pytree \<times> leaf pytree))
       \<Rightarrow> device \<Rightarrow> leaf pytree \<Rightarrow> leaf pytree
       \<Rightarrow> error + ((real \<times> leaf pytree \<times> leaf pytree) \<times> device)" where
  "named_jit_donate f dev mdl0 opt_state0 =
     (if (arrays_of mdl0 \<union> arrays_of opt_state0) \<inter> deleted dev \<noteq> {}
      then Inl (RuntimeError ''Array has been deleted'')
      else
        (case f mdl0 opt_state0 of
           Inl e \<Rightarrow> Inl e
         | Inr (loss', mdl', opt_state') \<Rightarrow>
             (case new_arrays (next_array dev) mdl' of
                (mdl'', n1) \<Rightarrow>
                  (case new_arrays n1 opt_state' of
                     (opt_state'', n2) \<Rightarrow>
                       Inr ((loss', mdl'', opt_state''),
                            \<lparr>next_array = n2,
                             deleted = deleted dev \<union> arrays_of mdl0 \<union> arrays_of opt_state0\<rparr>)))))"

text \<open>
  The function \<open>train_step\<close> local to \<open>_train_step_fn\<close>. The key travels in
  \<open>batch_kwargs\<close> down to the loss function.
\<close>

definition train_step_local ::
    "('b, 'w) Trainer \<Rightarrow> leaf pytree \<Rightarrow> leaf pytree \<Rightarrow> 'b \<Rightarrow> PRNGKey
       \<Rightarrow> error + (real \<times> leaf pytree \<times> leaf pytree)" where
  "train_step_local tr mdl0 opt_state0 batch key =
     (let mdl = inference_mode tr mdl0 False in
      case partition_trainable_params tr mdl of
        Inl e \<Rightarrow> Inl e
      | Inr (trainable_model, rest_model) \<Rightarrow>
          (let split_loss_fn =
                 (\<lambda>trainable_model batch key.
                    case combine trainable_model rest_model of
                      Inl e \<Rightarrow> Inl e
                    | Inr mdl \<Rightarrow> loss_fn tr mdl batch key)
           in case accumulate_gradients_sharded tr split_loss_fn trainable_model batch key of
                Inl e \<Rightarrow> Inl e
              | Inr (loss', grads) \<Rightarrow>
                  (case optimizer_update tr grads opt_state0 trainable_model of
                     Inl e \<Rightarrow> Inl e
                   | Inr (updates, opt_state') \<Rightarrow>
                       (case apply_updates tr mdl updates of
                          Inl e \<Rightarrow> Inl e
                        | Inr mdl' \<Rightarrow> Inr (loss', mdl', opt_state')))))"

text \<open>\<open>_train_step_fn\<close>: the local function under \<open>named_jit\<close> with its donation.\<close>

definition train_step_fn ::
    "('b, 'w) Trainer \<Rightarrow> device \<Rightarrow> leaf pytree \<Rightarrow> leaf pytree \<Rightarrow> 'b \<Rightarrow> PRNGKey
       \<Rightarrow> error + ((real \<times> leaf pytree \<times> leaf pytree) \<times> device)" where
  "train_step_fn tr dev mdl0 opt_state0 batch key =
     named_jit_donate (\<lambda>mdl os. train_step_local tr mdl os batch key) dev mdl0 opt_state0"

text \<open>
  \<open>train_step\<close>: it reads the four fields of its argument, assigns to none of them, and
  builds the state it returns. What it does to the outside is what the compiled step does
  to the device.
\<close>

definition train_step ::
    "('b, 'w) Trainer \<Rightarrow> device \<Rightarrow> TrainerState \<Rightarrow> 'b \<Rightarrow> error + (StepInfo \<times> device)" where
  "train_step tr dev st batch =
     (case random_split tr (training_key st) of
        (key, new_key) \<Rightarrow>
          (case train_step_fn tr dev (model st) (opt_state st) batch key of
             Inl e \<Rightarrow> Inl e
           | Inr ((loss', new_model, new_optstate), dev') \<Rightarrow>
               Inr (\<lparr>state = \<lparr>step = step st + 1, model = new_model, opt_state = new_optstate,
                               training_key = new_key\<rparr>,
                     loss = loss', step_duration = step_time tr (step st)\<rparr>, dev')))"

text \<open>A successful step returns a state whose step is one more: the loop below ends.\<close>

lemma train_step_next:
  "train_step tr dev st batch = Inr (info, dev') \<Longrightarrow> step (state info) = step st + 1"
  unfolding train_step_def by (auto split: prod.splits sum.splits)

text \<open>
  \<open>training_steps\<close>, a generator. The loader's iterator is a function from positions
  to batches, \<open>None\<close> once it is exhausted (a \<open>StopIteration\<close> inside a generator
  surfaces as \<open>RuntimeError\<close>). The result is the list of the \<open>StepInfo\<close> yielded, the
  world the hooks leave behind, the device, and the exception that ended the generator,
  if any. An \<open>info\<close> is yielded after its hooks have run. The two \<open>wandb.log\<close> calls
  only report timings and are left out.
\<close>

function training_steps ::
    "('b, 'w) Trainer \<Rightarrow> TrainerState \<Rightarrow> (nat \<Rightarrow> 'b option) \<Rightarrow> nat \<Rightarrow> bool \<Rightarrow> 'w \<Rightarrow> device
       \<Rightarrow> StepInfo list \<times> 'w \<times> device \<times> error option" where
  "training_steps tr st iter_data i run w dev =
     (if step st < num_train_steps (config tr) then
        (case iter_data i of
           None \<Rightarrow> ([], w, dev, Some (RuntimeError ''generator raised StopIteration''))
         | Some example \<Rightarrow>
             (case train_step tr dev st example of
                Inl e \<Rightarrow> ([], w, dev, Some e)
              | Inr (info, dev') \<Rightarrow>
                  (case (if run then run_hooks (hooks tr) info False w else (w, None)) of
                     (w', Some e) \<Rightarrow> ([], w', dev', Some e)
                   | (w', None) \<Rightarrow>
                       (case training_steps tr (state info) iter_data (Suc i) run w' dev' of
                          (infos, w'', dev'', err) \<Rightarrow> (info # infos, w'', dev'', err)))))
      else ([], w, dev, None))"
  by pat_completeness auto
termination
  by (relation "measure (\<lambda>(tr, st, iter_data, i, run, w, dev).
                   nat (num_train_steps (config tr) - step st))")
     (auto dest: train_step_next)

declare training_steps.simps [simp del]

text \<open>
  \<open>train\<close>: the loop variable \<open>info\<close> is bound by the \<open>for\<close> loop only; reading it
  after a loop that never ran raises \<open>UnboundLocalError\<close>.
\<close>

definition train ::
    "('b, 'w) Trainer \<Rightarrow> TrainerState \<Rightarrow> (nat \<Rightarrow> 'b option) \<Rightarrow> bool \<Rightarrow> 'w \<Rightarrow> device
       \<Rightarrow> 'w \<times> device \<times> (error + StepInfo)" where
  "train tr st train_loader run w dev =
     (case training_steps tr st train_loader 0 run w dev of
        (infos, w', dev', Some e) \<Rightarrow> (w', dev', Inl e)
      | ([], w', dev', None) \<Rightarrow> (w', dev', Inl (UnboundLocalError ''info''))
      | (info0 # infos, w', dev', None) \<Rightarrow>
          (let info = last (info0 # infos) in
           if run then
             (case run_hooks (hooks tr) info True w' of
                (w'', Some e) \<Rightarrow> (w'', dev', Inl e)
              | (w'', None) \<Rightarrow> (w'', dev', Inr info))
           else (w', dev', Inr info)))"

subsection \<open>Python floats\<close>

text \<open>
  A finite Python float is an IEEE 754 double: an integer mantissa of at most 53 bits times
  a power of two. Arithmetic on floats is exact arithmetic followed by rounding to the
  nearest double, ties to the even mantissa; a result too large for a double is an
  infinity.
\<close>

record double =
  mant :: int
  expo :: int

definition valof :: "double \<Rightarrow> real" where
  "valof x =
     (if 0 \<le> expo x then of_int (mant x) * 2 ^ nat (expo x)
      else of_int (mant x) / 2 ^ nat (- expo x))"

definition is_double :: "double \<Rightarrow> bool" where
  "is_double x \<longleftrightarrow> \<bar>mant x\<bar> < 2 ^ 53 \<and> - 1074 \<le> expo x \<and> expo x \<le> 971"

text \<open>The result of an operation on finite floats; the flag of an infinity is its sign bit.\<close>

datatype pyfloat = Finite double | Infinite bool

text \<open>\<open>int.bit_length\<close> of a positive integer.\<close>

function bit_length :: "int \<Rightarrow> int" where
  "bit_length n = (if n \<le> 0 then 0 else 1 + bit_length (n div 2))"
  by pat_completeness auto
termination
  by (relation "measure nat") auto

declare bit_length.simps [simp del]

text \<open>
  The double nearest to \<open>m * 2 ^ e\<close>. The unit of the last place is \<open>2 ^ u\<close>, where
  \<open>u\<close> leaves 53 bits to the mantissa and is not below the smallest exponent; \<open>q\<close> is
  the magnitude of the mantissa after rounding to that unit.
\<close>

definition round_to_double :: "int \<Rightarrow> int \<Rightarrow> pyfloat" where
  "round_to_double m e =
     (if m = 0 then Finite \<lparr>mant = 0, expo = 0\<rparr>
      else
        (let k = bit_length \<bar>m\<bar>;
             u = max (k + e - 53) (- 1074);
             q = (if u \<le> e then \<bar>m\<bar> * 2 ^ nat (e - u)
                  else
                    (let s = nat (u - e);
                         q0 = \<bar>m\<bar> div 2 ^ s;
                         r = \<bar>m\<bar> mod 2 ^ s;
                         half = 2 ^ (s - 1)
                     in if half < r \<or> (r = half \<and> odd q0) then q0 + 1 else q0))
         in if 971 < u \<or> (u = 971 \<and> q = 2 ^ 53) then Infinite (m < 0)
            else if q = 2 ^ 53 then Finite \<lparr>mant = sgn m * 2 ^ 52, expo = u + 1\<rparr>
            else Finite \<lparr>mant = sgn m * q, expo = u\<rparr>))"

text \<open>\<open>x * y\<close> on two finite floats.\<close>

definition float_mul :: "double \<Rightarrow> double \<Rightarrow> pyfloat" where
  "float_mul x y = round_to_double (mant x * mant y) (expo x + expo y)"

text \<open>
  The conversion of an \<open>int\<close> operand of a float operation; it raises when the integer is
  too large.
\<close>

definition float_of_int :: "int \<Rightarrow> error + double" where
  "float_of_int n =
     (case round_to_double n 0 of
        Infinite _ \<Rightarrow> Inl (OverflowError ''int too large to convert to float'')
      | Finite x \<Rightarrow> Inr x)"

text \<open>\<open>int(x)\<close> on a float truncates toward zero and raises on an infinity.\<close>

definition python_int :: "pyfloat \<Rightarrow> error + int" where
  "python_int x =
     (case x of
        Infinite _ \<Rightarrow> Inl (OverflowError ''cannot convert float infinity to integer'')
      | Finite d \<Rightarrow>
          Inr (if 0 \<le> expo d then mant d * 2 ^ nat (expo d)
               else sgn (mant d) * (\<bar>mant d\<bar> div 2 ^ nat (- expo d))))"

subsection \<open>The learning-rate schedule (\<open>OptimizerConfig.lr_scheduler\<close>)\<close>

text \<open>
  The fields of \<open>OptimizerConfig\<close> read by \<open>lr_scheduler\<close>, finite floats.
\<close>

record OptimizerConfig =
  learning_rate :: double
  min_lr_ratio :: double
  warmup_ratio :: double
  lr_schedule :: string

text \<open>
  The schedules of the optax library, as the values \<open>lr_scheduler\<close> builds from them:
  each constructor keeps the arguments of the call.
\<close>

datatype schedule =
    ConstantSchedule double
  | CosineDecaySchedule double int double
  | LinearSchedule double pyfloat int
  | JoinSchedules "schedule list" "int list"

text \<open>
  Modelled from the spec: the schedule functions belong to the optax library, which is not
  under src/. Spec 4.4 and 8: a linear schedule ramps from its initial to its end value
  over its steps and stays there; cosine decay falls from the base rate to the base rate
  times the minimum ratio over its steps and stays there; joined schedules switch at the
  boundary, the later one counting its steps from the boundary. A linear schedule over no
  steps is constant at its initial value. The rate at a step is the real number these
  formulas denote; \<open>None\<close> stands for a rate that is not a finite number.
\<close>

fun schedule_at :: "schedule \<Rightarrow> int \<Rightarrow> real option"
  and join_rest :: "schedule list \<Rightarrow> int list \<Rightarrow> int \<Rightarrow> real option \<Rightarrow> real option"
where
  "schedule_at (ConstantSchedule v) count = Some (valof v)"
| "schedule_at (LinearSchedule init_value end_value transition_steps) count =
     (if transition_steps \<le> 0 then Some (valof init_value)
      else
        (case end_value of
           Infinite _ \<Rightarrow> None
         | Finite end_value \<Rightarrow>
             (let c = max 0 (min count transition_steps);
                  frac = 1 - of_int c / of_int transition_steps
              in Some ((valof init_value - valof end_value) * frac + valof end_value))))"
| "schedule_at (CosineDecaySchedule init_value decay_steps alpha) count =
     (let c = min count decay_steps;
          cosine_decay = (1 + cos (pi * of_int c / of_int decay_steps)) / 2
      in Some (valof init_value * ((1 - valof alpha) * cosine_decay + valof alpha)))"
| "schedule_at (JoinSchedules [] boundaries) count = None"
| "schedule_at (JoinSchedules (s # ss) boundaries) count =
     join_rest ss boundaries count (schedule_at s count)"
| "join_rest (s # ss) (b # bs) count output =
     join_rest ss bs count (if count < b then output else schedule_at s (count - b))"
| "join_rest _ _ count output = output"

text \<open>The float \<open>0.0\<close>.\<close>

definition float_0 :: double where "float_0 = \<lparr>mant = 0, expo = 0\<rparr>"

text \<open>\<open>optax.cosine_decay_schedule\<close> refuses a number of decay steps that is not positive.\<close>

definition cosine_decay_schedule :: "double \<Rightarrow> int \<Rightarrow> double \<Rightarrow> error + schedule" where
  "cosine_decay_schedule init_value decay_steps alpha =
     (if \<not> decay_steps > 0
      then Inl (ValueError ''The cosine_decay_schedule requires positive decay_steps!'')
      else Inr (CosineDecaySchedule init_value decay_steps alpha))"

text \<open>
  \<open>warmup_steps = int(self.warmup_ratio * num_train_steps)\<close>: the integer is converted
  to a float, the product is a float product, and \<open>int\<close> truncates it.
\<close>

definition warmup_steps_of :: "OptimizerConfig \<Rightarrow> int \<Rightarrow> error + int" where
  "warmup_steps_of cfg n =
     (case float_of_int n of
        Inl e \<Rightarrow> Inl e
      | Inr x \<Rightarrow> python_int (float_mul (warmup_ratio cfg) x))"

definition lr_scheduler :: "OptimizerConfig \<Rightarrow> int \<Rightarrow> error + schedule" where
  "lr_scheduler cfg n =
     (case warmup_steps_of cfg n of
        Inl e \<Rightarrow> Inl e
      | Inr warmup_steps \<Rightarrow>
     (let lr_decay_steps = n - warmup_steps;
          min_lr = float_mul (learning_rate cfg) (min_lr_ratio cfg)
      in case (if lr_schedule cfg = ''constant'' then Inr (ConstantSchedule (learning_rate cfg))
               else if lr_schedule cfg = ''cosine'' then
                 cosine_decay_schedule (learning_rate cfg) lr_decay_steps (min_lr_ratio cfg)
               else if lr_schedule cfg = ''linear'' then
                 Inr (LinearSchedule (learning_rate cfg) min_lr (lr_decay_steps - warmup_steps))
               else Inl (ValueError (''Unknown lr_schedule: '' @ lr_schedule cfg))) of
           Inl e \<Rightarrow> Inl e
         | Inr sched \<Rightarrow>
             if warmup_steps \<noteq> 0 then
               Inr (JoinSchedules
                      [LinearSchedule float_0 (Finite (learning_rate cfg)) warmup_steps, sched]
                      [warmup_steps])
             else Inr sched))"

text \<open>The floats 1, 0.75, 0.25, 0.3 and 0.29 as doubles.\<close>

definition float_1 :: double where "float_1 = \<lparr>mant = 1, expo = 0\<rparr>"

definition float_0_75 :: double where "float_0_75 = \<lparr>mant = 3, expo = - 2\<rparr>"

definition float_0_25 :: double where "float_0_25 = \<lparr>mant = 1, expo = - 2\<rparr>"

definition float_0_3 :: double where "float_0_3 = \<lparr>mant = 5404319552844595, expo = - 54\<rparr>"

definition float_0_29 :: double where "float_0_29 = \<lparr>mant = 5224175567749775, expo = - 54\<rparr>"

text \<open>
  A configuration used to evaluate the definitions: the spec's example for the axis
  mapping, a half-precision compute policy, ten training steps.
\<close>

definition example_config :: TrainerConfig where
  "example_config =
     \<lparr>mp = \<lparr>param_dtype = Float32, compute_dtype = BFloat16, output_dtype = Float32\<rparr>,
      batch_axis = Some ''b'', fsdp_axis = FsdpList [''x''],
      tensor_parallel_axes = Some [''x''], axis_resources = [(''x'', ''A'')],
      parameter_axis_resources = [], num_train_steps = 10,
      checkpointer = (\<lambda>template training_state path. Inr None),
      load_checkpoint = None, load_checkpoint_path = Some ''ckpt''\<rparr>"

text \<open>
  Modelled from the spec: \<open>is_inexact_arrayish\<close> of \<open>levanter.utils.jax_utils\<close> is not
  under src/. Spec 3: only leaves of floating-point array type can be trainable. It is a
  parameter of the trainer above; this is the instance used to evaluate the definitions.
\<close>

fun floating_array :: "leaf \<Rightarrow> bool" where
  "floating_array (Arr d v) = is_floating d"
| "floating_array (ShapeDtypeStruct d) = is_floating d"
| "floating_array (Obj v) = False"

text \<open>
  A trainer and a model used to evaluate the definitions: three leaves, of which the first
  is trainable, the second is a floating-point array masked out, the third an integer
  array. The optimizer state is the tree of trainable parameters, the collaborators do
  nothing, and one hook logs every step.
\<close>

definition example_trainer :: "(nat, string list) Trainer" where
  "example_trainer =
     \<lparr>config = example_config,
      is_trainable_param = PNode [PLeaf (FBool True), PLeaf (FBool False), PLeaf (FBool True)],
      is_inexact_arrayish = floating_array,
      optimizer_init = (\<lambda>trainable. trainable),
      optimizer_update = (\<lambda>grads os params. Inr (grads, os)),
      raw_loss_function = (\<lambda>mdl batch key. Inr 0),
      accumulate_gradients_sharded =
        (\<lambda>f trainable batch key.
           case f trainable batch key of Inl e \<Rightarrow> Inl e | Inr l \<Rightarrow> Inr (l, trainable)),
      apply_updates = (\<lambda>mdl updates. Inr mdl),
      inference_mode = (\<lambda>mdl b. mdl),
      random_split = (\<lambda>k. case k of Key n \<Rightarrow> (Key (2 * n + 1), Key (2 * n + 2))),
      step_time = (\<lambda>n. 0),
      hooks = [\<lparr>fn = log_call ''log'', every = 1\<rparr>]\<rparr>"

definition example_model :: "leaf pytree" where
  "example_model = PNode [PLeaf (Arr Float32 1), PLeaf (Arr Float32 2), PLeaf (Arr Int32 3)]"

text \<open>The same trainer with a checkpointer that finds a checkpoint saved at step 41.\<close>

definition example_checkpoint :: checkpoint where
  "example_checkpoint =
     (PNode [PLeaf (Arr Float32 10), PNone, PNone],
      (PNode [PLeaf (Arr Float32 11), PNone, PNone], Key 7), 41)"

definition resuming_trainer :: "(nat, string list) Trainer" where
  "resuming_trainer =
     example_trainer
       \<lparr>config := example_config
          \<lparr>checkpointer := (\<lambda>template training_state path. Inr (Some example_checkpoint))\<rparr>\<rparr>"

text \<open>
  The fields of the example trainer that the initialisation depends on; the evaluations
  below hold for every trainer that agrees with it on them.
\<close>

definition like_example :: "('b, 'w) Trainer \<Rightarrow> bool" where
  "like_example tr \<longleftrightarrow>
     is_trainable_param tr = PNode [PLeaf (FBool True), PLeaf (FBool False), PLeaf (FBool True)]
     \<and> is_inexact_arrayish tr = floating_array
     \<and> mp (config tr) = \<lparr>param_dtype = Float32, compute_dtype = BFloat16, output_dtype = Float32\<rparr>
     \<and> optimizer_init tr = (\<lambda>trainable. trainable)"

section \<open>Axis-mapping precedence\<close>

lemma fold_upd_items:
  "fold (\<lambda>(k, v) m. m(k \<mapsto> v)) items m0 a =
     (case map_of (rev items) a of Some r \<Rightarrow> Some r | None \<Rightarrow> m0 a)"
  by (induction items arbitrary: m0) (auto split: option.splits)

lemma set_all_apply:
  "set_all axes r m a = (if a \<in> set axes then Some r else m a)"
  unfolding set_all_def by (induction axes arbitrary: m) auto

lemma dict_apply: "dict items a = map_of (rev items) a"
  unfolding dict_def by (simp add: fold_upd_items split: option.splits)

lemma compute_axis_mapping_apply:
  "compute_axis_mapping cfg a =
     (if batch_axis cfg = Some a then Some ResourceAxis_DATA
      else if a \<in> set (tp_axes cfg) then Some ResourceAxis_MODEL
      else map_of (rev (axis_resources cfg)) a)"
  unfolding compute_axis_mapping_def
  by (simp add: Let_def set_all_apply dict_apply split: option.splits)

lemma parameter_axis_mapping_apply:
  "parameter_axis_mapping cfg a =
     (if a \<in> set (fsdp_names cfg) then Some ResourceAxis_DATA
      else case map_of (rev (parameter_axis_resources cfg)) a of
             Some r \<Rightarrow> Some r
           | None \<Rightarrow> compute_axis_mapping cfg a)"
  unfolding parameter_axis_mapping_def fsdp_names_def
  by (simp add: Let_def set_all_apply fold_upd_items split: fsdp_axis_t.splits)

text \<open>
  C4. The compute mapping is \<open>axis_resources\<close> overlaid by the tensor-parallel names
  (to the model axis) and then by the batch axis (to the data axis); the parameter mapping
  is the compute mapping overlaid by \<open>parameter_axis_resources\<close> and then by the FSDP
  names (to the data axis); a later rule wins. With
  \<open>axis_resources = {"x": "A"}\<close> and \<open>tensor_parallel_axes = ["x"]\<close> the compute
  mapping sends \<open>x\<close> to the model axis (the batch axis being another name, as in the
  spec's example), and with \<open>fsdp_axis = ["x"]\<close> the parameter mapping sends \<open>x\<close> to
  the data axis.
\<close>

theorem axis_override_precedence:
  "compute_axis_mapping cfg a =
     (if batch_axis cfg = Some a then Some ResourceAxis_DATA
      else if a \<in> set (tp_axes cfg) then Some ResourceAxis_MODEL
      else dict (axis_resources cfg) a)
   \<and> parameter_axis_mapping cfg a =
     (if a \<in> set (fsdp_names cfg) then Some ResourceAxis_DATA
      else case dict (parameter_axis_resources cfg) a of
             Some r \<Rightarrow> Some r
           | None \<Rightarrow> compute_axis_mapping cfg a)
   \<and> (axis_resources cfg = [(''x'', ''A'')] \<and> tensor_parallel_axes cfg = Some [''x'']
        \<and> batch_axis cfg \<noteq> Some ''x''
      \<longrightarrow> compute_axis_mapping cfg ''x'' = Some ResourceAxis_MODEL)
   \<and> (fsdp_axis cfg = FsdpList [''x'']
      \<longrightarrow> parameter_axis_mapping cfg ''x'' = Some ResourceAxis_DATA)"
proof -
  have ex1: "axis_resources cfg = [(''x'', ''A'')] \<and> tensor_parallel_axes cfg = Some [''x'']
        \<and> batch_axis cfg \<noteq> Some ''x''
      \<longrightarrow> compute_axis_mapping cfg ''x'' = Some ResourceAxis_MODEL"
    by (simp add: compute_axis_mapping_apply tp_axes_def)
  have ex2: "fsdp_axis cfg = FsdpList [''x'']
      \<longrightarrow> parameter_axis_mapping cfg ''x'' = Some ResourceAxis_DATA"
    by (simp add: parameter_axis_mapping_apply fsdp_names_def)
  show ?thesis
    using ex1 ex2
    by (simp add: compute_axis_mapping_apply parameter_axis_mapping_apply dict_apply)
qed

theorem axis_override_precedence_witness:
  "compute_axis_mapping
     example_config ''x'' = Some ''model''
   \<and> compute_axis_mapping
     example_config ''b'' = Some ''data''
   \<and> parameter_axis_mapping
     example_config ''x'' = Some ''data''"
  using axis_override_precedence
    [of "example_config" "''x''"]
    axis_override_precedence
    [of "example_config" "''b''"]
  by (simp add: example_config_def ResourceAxis_MODEL_def ResourceAxis_DATA_def tp_axes_def)

section \<open>Hook periodicity\<close>

lemma run_hooks_call_all:
  "force \<or> (\<forall>h \<in> set hks. every h \<noteq> 0) \<Longrightarrow>
   run_hooks hks info force w =
     call_all (filter (\<lambda>h. force \<or> StepInfo_step info mod every h = 0) hks) info w"
proof (induction hks arbitrary: w)
  case Nil
  show ?case by simp
next
  case (Cons h hs)
  have rest: "\<And>w'. run_hooks hs info force w' =
      call_all (filter (\<lambda>h. force \<or> StepInfo_step info mod every h = 0) hs) info w'"
    using Cons by auto
  show ?case
  proof (cases force)
    case True
    with rest have rest': "\<And>w'. run_hooks hs info True w' = call_all hs info w'"
      by simp
    from True show ?thesis
      by (simp add: hook_due_def rest' split: prod.splits option.splits)
  next
    case False
    with Cons.prems have nz: "every h \<noteq> 0" by simp
    from False rest have rest': "\<And>w'. run_hooks hs info False w' =
        call_all (filter (\<lambda>h. StepInfo_step info mod every h = 0) hs) info w'"
      by simp
    from False nz show ?thesis
      by (simp add: hook_due_def rest' split: prod.splits option.splits)
  qed
qed

text \<open>
  C5, as stated, fails on the code: a hook registered with period 0 makes \<open>run_hooks\<close>
  raise \<open>ZeroDivisionError\<close> when firing is not forced, and the hooks registered after
  it are not invoked although the completed step is divisible by their period. Here the
  completed step is 1, the second hook has period 1, and nothing is invoked; with the two
  hooks registered in the other order the second hook is invoked.
\<close>

theorem run_hooks_zero_period_counterexample:
  "run_hooks [\<lparr>fn = log_call ''f'', every = 0\<rparr>, \<lparr>fn = log_call ''g'', every = 1\<rparr>]
       (example_info 2) False [] = ([], Some ZeroDivisionError)
   \<and> StepInfo_step (example_info 2) mod 1 = 0
   \<and> run_hooks [\<lparr>fn = log_call ''g'', every = 1\<rparr>, \<lparr>fn = log_call ''f'', every = 0\<rparr>]
       (example_info 2) False [] = ([''g''], Some ZeroDivisionError)"
  by (simp add: hook_due_def StepInfo_step_def example_info_def log_call_def)

text \<open>
  C5, amended. When firing is forced or every registered period is non-zero,
  \<open>run_hooks\<close> invokes, in registration order and up to the first callback that raises,
  exactly the hooks for which \<open>force\<close> holds or the completed step
  \<open>result.state.step - 1\<close> is divisible by the hook's period. Whether a hook is selected
  depends on that hook alone, not on its position among the others.
\<close>

theorem run_hooks_periodicity:
  assumes "force \<or> (\<forall>h \<in> set hks. every h \<noteq> 0)"
  shows "run_hooks hks info force w =
     call_all (filter (\<lambda>h. force \<or> every h dvd (step (state info) - 1)) hks) info w"
proof -
  have "(\<lambda>h::'a Hook. force \<or> StepInfo_step info mod every h = 0) =
        (\<lambda>h. force \<or> every h dvd (step (state info) - 1))"
    by (auto simp: StepInfo_step_def fun_eq_iff mod_eq_0_iff_dvd)
  with run_hooks_call_all [OF assms, of info w] show ?thesis by simp
qed

theorem run_hooks_periodicity_witness:
  "run_hooks [\<lparr>fn = log_call ''every2'', every = 2\<rparr>, \<lparr>fn = log_call ''every3'', every = 3\<rparr>,
              \<lparr>fn = log_call ''every1'', every = 1\<rparr>]
       (example_info 7) False [] = ([''every2'', ''every3'', ''every1''], None)
   \<and> run_hooks [\<lparr>fn = log_call ''every2'', every = 2\<rparr>, \<lparr>fn = log_call ''every3'', every = 3\<rparr>,
              \<lparr>fn = log_call ''every1'', every = 1\<rparr>]
       (example_info 5) False [] = ([''every2'', ''every1''], None)"
  using run_hooks_periodicity
    [of False "[\<lparr>fn = log_call ''every2'', every = 2\<rparr>, \<lparr>fn = log_call ''every3'', every = 3\<rparr>,
              \<lparr>fn = log_call ''every1'', every = 1\<rparr>]" "example_info 7" "[]"]
    run_hooks_periodicity
    [of False "[\<lparr>fn = log_call ''every2'', every = 2\<rparr>, \<lparr>fn = log_call ''every3'', every = 3\<rparr>,
              \<lparr>fn = log_call ''every1'', every = 1\<rparr>]" "example_info 5" "[]"]
  by (simp add: example_info_def log_call_def)

section \<open>Partition and combine identity\<close>

lemma same_shape_list_map:
  "(\<And>x. x \<in> set ts \<Longrightarrow> same_shape (g x) x) \<Longrightarrow> same_shape_list (map g ts) ts"
  by (induction ts) auto

lemma same_shape_map: "same_shape (map_pytree f t) t"
  by (induction t) (auto intro: same_shape_list_map)

lemma make_filter_tree_shape: "make_filter_tree a t = Inr r \<Longrightarrow> same_shape r t"
  by (cases a) (auto simp: same_shape_map)

lemma filter_tree_shape:
  "tree_map2 make_filter_tree spec m = Inr ft \<Longrightarrow> same_shape ft m"
  "tree_map2_list make_filter_tree specs ms = Inr fts \<Longrightarrow> same_shape_list fts ms"
proof (induction "make_filter_tree" spec m and "make_filter_tree" specs ms
       arbitrary: ft and fts rule: tree_map2_tree_map2_list.induct)
qed (auto simp: make_filter_tree_shape split: sum.splits)

lemma partition_halves:
  "same_shape ft (m :: 'a pytree) \<Longrightarrow>
     \<exists>l r. tree_map2 (\<lambda>b x. Inr (if b then x else PNone)) ft m = Inr l
         \<and> tree_map2 (\<lambda>b x. Inr (if b then PNone else x)) ft m = Inr r
         \<and> combine l r = Inr m"
  "same_shape_list fts (ms :: 'a pytree list) \<Longrightarrow>
     \<exists>ls rs. tree_map2_list (\<lambda>b x. Inr (if b then x else PNone)) fts ms = Inr ls
         \<and> tree_map2_list (\<lambda>b x. Inr (if b then PNone else x)) fts ms = Inr rs
         \<and> combine_list ls rs = Inr ms"
  by (induction ft m and fts ms rule: same_shape_same_shape_list.induct) auto

lemma make_filter_tree_bool:
  "\<exists>ft. make_filter_tree (trainable_and_diffable ie (FBool v)) t = Inr ft"
  by (cases v) auto

lemma mask_ok_filter_tree:
  "mask_ok msk m \<Longrightarrow>
     \<exists>ft. tree_map2 make_filter_tree (map_pytree (trainable_and_diffable ie) msk) m = Inr ft"
  "mask_ok_list masks ms \<Longrightarrow>
     \<exists>fts. tree_map2_list make_filter_tree (map (map_pytree (trainable_and_diffable ie)) masks) ms = Inr fts"
  by (induction msk m and masks ms rule: mask_ok_mask_ok_list.induct)
     (auto simp: make_filter_tree_bool)

lemma partition_combine:
  assumes "partition m spec = Inr (l, r)"
  shows "combine l r = Inr m"
proof -
  from assms obtain ft where ft: "tree_map2 make_filter_tree spec m = Inr ft"
    unfolding partition_def by (auto split: sum.splits)
  from partition_halves(1) [OF filter_tree_shape(1) [OF ft]] assms ft show ?thesis
    unfolding partition_def by auto
qed

lemma partition_total:
  assumes "tree_map2 make_filter_tree spec m = Inr ft"
  shows "\<exists>l r. partition m spec = Inr (l, r)"
  using partition_halves(1) [OF filter_tree_shape(1) [OF assms]] assms
  unfolding partition_def by auto

text \<open>
  C1. Recombining the two halves returned by the trainable partition reproduces the model:
  whenever \<open>partition_trainable_params\<close> returns the pair (trainable, non-trainable) for
  a model, \<open>combine\<close> of the pair is that model, in structure and in every leaf. The
  partition does return, with that property, for every mask of booleans and callables
  that is a prefix of the model.
\<close>

theorem partition_combine_identity:
  "(partition_trainable_params tr m = Inr (trainable, non_trainable)
      \<longrightarrow> combine trainable non_trainable = Inr m)
   \<and> (mask_ok (is_trainable_param tr) m
      \<longrightarrow> (\<exists>t n. partition_trainable_params tr m = Inr (t, n) \<and> combine t n = Inr m))"
proof -
  have a: "partition_trainable_params tr m = Inr (t, n) \<Longrightarrow> combine t n = Inr m" for t n
    unfolding partition_trainable_params_def by (simp add: partition_combine)
  have b: "\<exists>t n. partition_trainable_params tr m = Inr (t, n)"
    if "mask_ok (is_trainable_param tr) m"
    using mask_ok_filter_tree(1) [OF that, of "is_inexact_arrayish tr"] partition_total
    unfolding partition_trainable_params_def by (auto simp: Let_def)
  from a b show ?thesis by blast
qed

theorem partition_combine_identity_witness:
  "partition_trainable_params example_trainer example_model =
     Inr (PNode [PLeaf (Arr Float32 1), PNone, PNone],
          PNode [PNone, PLeaf (Arr Float32 2), PLeaf (Arr Int32 3)])
   \<and> combine (PNode [PLeaf (Arr Float32 1), PNone, PNone])
        (PNode [PNone, PLeaf (Arr Float32 2), PLeaf (Arr Int32 3)]) = Inr example_model"
proof -
  have p: "partition_trainable_params example_trainer example_model =
     Inr (PNode [PLeaf (Arr Float32 1), PNone, PNone],
          PNode [PNone, PLeaf (Arr Float32 2), PLeaf (Arr Int32 3)])"
    by (simp add: partition_trainable_params_def partition_def example_trainer_def
          example_model_def)
  with partition_combine_identity
         [of example_trainer example_model "PNode [PLeaf (Arr Float32 1), PNone, PNone]"
             "PNode [PNone, PLeaf (Arr Float32 2), PLeaf (Arr Int32 3)]"]
  show ?thesis by blast
qed

section \<open>Evaluating the example trainer\<close>

lemma like_example_partition:
  "like_example tr \<Longrightarrow>
   partition_trainable_params tr example_model =
     Inr (PNode [PLeaf (Arr Float32 1), PNone, PNone],
          PNode [PNone, PLeaf (Arr Float32 2), PLeaf (Arr Int32 3)])"
  by (simp add: like_example_def partition_trainable_params_def partition_def example_model_def)

lemma like_example_init:
  "like_example tr \<Longrightarrow>
   init_model_and_opt_state tr (\<lambda>_. Inr example_model) =
     Inr (PNode [PLeaf (Arr Float32 1), PLeaf (Arr BFloat16 2), PLeaf (Arr Int32 3)],
          PNode [PLeaf (Arr Float32 1), PNone, PNone])"
  by (simp add: init_model_and_opt_state_def like_example_partition cast_to_param_def
        cast_to_compute_def)
     (simp add: like_example_def)

lemma like_example_non_trainable:
  "like_example tr \<Longrightarrow>
   init_non_trainable_params tr (\<lambda>_. Inr example_model) =
     Inr (PNode [PNone, PLeaf (Arr BFloat16 2), PLeaf (Arr Int32 3)])"
  by (simp add: init_non_trainable_params_def like_example_partition cast_to_compute_def)
     (simp add: like_example_def)

lemma like_example_shape_partition:
  "like_example tr \<Longrightarrow>
   partition_trainable_params tr
     (PNode [PLeaf (ShapeDtypeStruct Float32), PLeaf (ShapeDtypeStruct BFloat16),
             PLeaf (ShapeDtypeStruct Int32)]) =
     Inr (PNode [PLeaf (ShapeDtypeStruct Float32), PNone, PNone],
          PNode [PNone, PLeaf (ShapeDtypeStruct BFloat16), PLeaf (ShapeDtypeStruct Int32)])"
  by (simp add: like_example_def partition_trainable_params_def partition_def)

lemma like_example_ckpt:
  "like_example tr \<Longrightarrow>
   initial_state_ckpt tr key0 (\<lambda>_. Inr example_model) =
     maybe_load_checkpoint (config tr) (PNode [PLeaf (ShapeDtypeStruct Float32), PNone, PNone])
       (PNode [PLeaf (ShapeDtypeStruct Float32), PNone, PNone], key0)"
  by (simp add: initial_state_ckpt_def filter_eval_shape_def like_example_init
        trainable_params_only_def like_example_shape_partition)

lemma like_example_trainer [simp]: "like_example example_trainer"
  by (simp add: like_example_def example_trainer_def example_config_def)

lemma like_resuming_trainer [simp]: "like_example resuming_trainer"
  by (simp add: like_example_def resuming_trainer_def example_trainer_def example_config_def)

lemma like_example_flag [simp]:
  "like_example tr \<Longrightarrow> like_example (tr\<lparr>config := config tr\<lparr>load_checkpoint := flag\<rparr>\<rparr>)"
  by (simp add: like_example_def)

lemma example_ckpt:
  "initial_state_ckpt example_trainer key0 (\<lambda>_. Inr example_model) = Inr None"
  by (simp add: like_example_ckpt maybe_load_checkpoint_def)
     (simp add: example_trainer_def example_config_def)

lemma resuming_ckpt:
  "initial_state_ckpt resuming_trainer key0 (\<lambda>_. Inr example_model) =
     Inr (Some example_checkpoint)"
  by (simp add: like_example_ckpt maybe_load_checkpoint_def)
     (simp add: resuming_trainer_def example_trainer_def example_config_def)

lemma example_initial_state_from:
  "initial_state_from example_trainer (Key 0) supplied (\<lambda>_. Inr example_model) =
     Inr \<lparr>step = 0,
          model = PNode [PLeaf (Arr Float32 1), PLeaf (Arr BFloat16 2), PLeaf (Arr Int32 3)],
          opt_state = PNode [PLeaf (Arr Float32 1), PNone, PNone],
          training_key = Key 0\<rparr>"
  by (simp add: initial_state_from_def example_ckpt like_example_init)

lemma resuming_with_model:
  "initial_state_from resuming_trainer (Key 0) (Some example_model) (\<lambda>_. Inr example_model) =
     Inr \<lparr>step = 42,
          model = PNode [PLeaf (Arr Float32 10), PLeaf (Arr Float32 2), PLeaf (Arr Int32 3)],
          opt_state = PNode [PLeaf (Arr Float32 11), PNone, PNone],
          training_key = Key 7\<rparr>"
  by (simp add: initial_state_from_def resuming_ckpt example_checkpoint_def)
     (simp add: example_model_def)

lemma resuming_with_init:
  "initial_state_from resuming_trainer (Key 0) None (\<lambda>_. Inr example_model) =
     Inr \<lparr>step = 42,
          model = PNode [PLeaf (Arr Float32 10), PLeaf (Arr BFloat16 2), PLeaf (Arr Int32 3)],
          opt_state = PNode [PLeaf (Arr Float32 11), PNone, PNone],
          training_key = Key 7\<rparr>"
  by (simp add: initial_state_from_def resuming_ckpt example_checkpoint_def
        like_example_non_trainable)


section \<open>Argument check of \<open>initial_state\<close>\<close>

text \<open>
  C8. \<open>initial_state\<close> raises on its arguments exactly when they are invalid: given
  both a model and an initializer it raises \<open>ValueError\<close>, given neither it raises
  \<open>ValueError\<close>, and given exactly one the check passes and the result is that of the
  rest of the function (with the given model wrapped as the initializer that returns it).
\<close>

theorem initial_state_argument_check:
  "initial_state tr key0 (Some mdl) (Some model_init) =
     Inl (ValueError ''only one of model and model_init should be specified'')
   \<and> initial_state tr key0 None None =
     Inl (ValueError ''one of model and model_init must be specified'')
   \<and> initial_state tr key0 (Some mdl) None = initial_state_from tr key0 (Some mdl) (\<lambda>_. Inr mdl)
   \<and> initial_state tr key0 None (Some model_init) = initial_state_from tr key0 None model_init"
  by simp

theorem initial_state_argument_check_witness:
  "initial_state example_trainer (Key 0) (Some example_model) (Some (\<lambda>_. Inr example_model)) =
     Inl (ValueError ''only one of model and model_init should be specified'')
   \<and> initial_state example_trainer (Key 0) None None =
     Inl (ValueError ''one of model and model_init must be specified'')
   \<and> initial_state example_trainer (Key 0) (Some example_model) None =
     Inr \<lparr>step = 0,
          model = PNode [PLeaf (Arr Float32 1), PLeaf (Arr BFloat16 2), PLeaf (Arr Int32 3)],
          opt_state = PNode [PLeaf (Arr Float32 1), PNone, PNone],
          training_key = Key 0\<rparr>
   \<and> initial_state example_trainer (Key 0) None (Some (\<lambda>_. Inr example_model)) =
     Inr \<lparr>step = 0,
          model = PNode [PLeaf (Arr Float32 1), PLeaf (Arr BFloat16 2), PLeaf (Arr Int32 3)],
          opt_state = PNode [PLeaf (Arr Float32 1), PNone, PNone],
          training_key = Key 0\<rparr>"
  using initial_state_argument_check
          [of example_trainer "Key 0" example_model "\<lambda>_. Inr example_model"]
  by (simp add: example_initial_state_from)

section \<open>Checkpoint-load flag\<close>







section \<open>Resume step numbering\<close>

lemma combine_leaf_at:
  "combine t n = Inr r \<Longrightarrow> leaf_at t path = Some x \<Longrightarrow> leaf_at r path = Some x"
  "combine_list ts ns = Inr rs \<Longrightarrow> i < length ts \<Longrightarrow> leaf_at (ts ! i) path = Some x
     \<Longrightarrow> i < length rs \<and> leaf_at (rs ! i) path = Some x"
proof (induction t n and ts ns arbitrary: r path and rs i path rule: combine_combine_list.induct)
  case (1 n)
  then show ?case by simp
next
  case (2 x n)
  then show ?case by simp
next
  case (3 ts ns)
  then show ?case
    by (cases path) (auto split: sum.splits if_splits)
next
  case (6 t ts n ns)
  then show ?case
    by (cases i) (auto split: sum.splits)
qed simp_all

text \<open>
  C6. Resume step numbering. Whenever \<open>initial_state\<close> returns a state: if the
  checkpoint lookup found a checkpoint saved at completed step \<open>N\<close>, the state has step
  \<open>N + 1\<close>, the optimizer state and key of the checkpoint, and every leaf of the
  checkpoint's trainable model at its place in the model; if the lookup found nothing, the
  initializer was run, the state has step 0 and the key it was given, its model is the
  partitioned and cast result of the initializer, and its optimizer state is built by the
  optimizer from the trainable half only.
\<close>

theorem resume_step_numbering:
  assumes "initial_state tr key0 supplied init = Inr st"
  shows "\<exists>model_init.
     (case supplied of
        Some mdl \<Rightarrow> init = None \<and> model_init = (\<lambda>_. Inr mdl)
      | None \<Rightarrow> init = Some model_init)
     \<and> (case initial_state_ckpt tr key0 model_init of
          Inl e \<Rightarrow> False
        | Inr (Some (trainable_model, (os, k), completed_step)) \<Rightarrow>
            step st = completed_step + 1 \<and> opt_state st = os \<and> training_key st = k
            \<and> (\<forall>path x. leaf_at trainable_model path = Some x
                  \<longrightarrow> leaf_at (model st) path = Some x)
        | Inr None \<Rightarrow>
            step st = 0 \<and> training_key st = key0
            \<and> (\<exists>mdl trainable non_trainable.
                  model_init () = Inr mdl
                  \<and> partition_trainable_params tr mdl = Inr (trainable, non_trainable)
                  \<and> opt_state st = optimizer_init tr (cast_to_param (mp (config tr)) trainable)
                  \<and> combine (cast_to_param (mp (config tr)) trainable)
                        (cast_to_compute (mp (config tr)) non_trainable) = Inr (model st)))"
proof -
  have body: "case initial_state_ckpt tr key0 model_init of
          Inl e \<Rightarrow> False
        | Inr (Some (trainable_model, (os, k), completed_step)) \<Rightarrow>
            step st = completed_step + 1 \<and> opt_state st = os \<and> training_key st = k
            \<and> (\<forall>path x. leaf_at trainable_model path = Some x
                  \<longrightarrow> leaf_at (model st) path = Some x)
        | Inr None \<Rightarrow>
            step st = 0 \<and> training_key st = key0
            \<and> (\<exists>mdl trainable non_trainable.
                  model_init () = Inr mdl
                  \<and> partition_trainable_params tr mdl = Inr (trainable, non_trainable)
                  \<and> opt_state st = optimizer_init tr (cast_to_param (mp (config tr)) trainable)
                  \<and> combine (cast_to_param (mp (config tr)) trainable)
                        (cast_to_compute (mp (config tr)) non_trainable) = Inr (model st))"
    if "initial_state_from tr key0 supplied model_init = Inr st" for model_init
    using that unfolding initial_state_from_def init_model_and_opt_state_def
    by (auto simp: Let_def split: sum.splits option.splits prod.splits
             dest: combine_leaf_at(1))
  show ?thesis
    using assms body
    by (cases "(tr, key0, supplied, init)" rule: initial_state.cases) auto
qed

theorem resume_step_numbering_witness:
  "(\<exists>st. initial_state resuming_trainer (Key 0) None (Some (\<lambda>_. Inr example_model)) = Inr st
        \<and> step st = 41 + 1 \<and> training_key st = Key 7
        \<and> leaf_at (model st) [0] = Some (Arr Float32 10))
   \<and> (\<exists>st. initial_state example_trainer (Key 0) None (Some (\<lambda>_. Inr example_model)) = Inr st
        \<and> step st = 0 \<and> training_key st = Key 0
        \<and> opt_state st = optimizer_init example_trainer (PNode [PLeaf (Arr Float32 1), PNone, PNone]))"
proof -
  obtain st1 where r: "initial_state resuming_trainer (Key 0) None (Some (\<lambda>_. Inr example_model)) = Inr st1"
    by (simp add: resuming_with_init)
  from resume_step_numbering [OF r]
  have "step st1 = 41 + 1 \<and> training_key st1 = Key 7
        \<and> (\<forall>path x. leaf_at (PNode [PLeaf (Arr Float32 10), PNone, PNone]) path = Some x
              \<longrightarrow> leaf_at (model st1) path = Some x)"
    by (simp add: resuming_ckpt example_checkpoint_def)
  then have a: "step st1 = 41 + 1 \<and> training_key st1 = Key 7
        \<and> leaf_at (model st1) [0] = Some (Arr Float32 10)"
    by simp
  obtain st0 where f: "initial_state example_trainer (Key 0) None (Some (\<lambda>_. Inr example_model)) = Inr st0"
    by (simp add: example_initial_state_from)
  from resume_step_numbering [OF f]
  have b: "step st0 = 0 \<and> training_key st0 = Key 0
        \<and> opt_state st0 = optimizer_init example_trainer (PNode [PLeaf (Arr Float32 1), PNone, PNone])"
    by (simp add: example_ckpt like_example_partition cast_to_param_def)
       (simp add: example_trainer_def example_config_def)
  from r a f b show ?thesis by blast
qed

section \<open>Precision of non-trainable leaves on the resume paths\<close>

text \<open>
  C9, evaluated on the code. The policy stores parameters as \<open>Float32\<close> and computes in
  \<open>BFloat16\<close>; the second leaf of the model is a floating-point array that the mask
  leaves out, so it is non-trainable. Fresh initialisation and the resume from an
  initializer cast it to \<open>BFloat16\<close>. The resume from a concrete model (a checkpoint is
  found and \<open>model\<close> is given) combines the checkpoint with the given model as it is: the
  leaf stays \<open>Float32\<close>, the param precision.
\<close>

theorem resume_with_model_skips_cast:
  "param_dtype (mp (config resuming_trainer)) = Float32
   \<and> compute_dtype (mp (config resuming_trainer)) = BFloat16
   \<and> initial_state resuming_trainer (Key 0) (Some example_model) None =
       Inr \<lparr>step = 42,
            model = PNode [PLeaf (Arr Float32 10), PLeaf (Arr Float32 2), PLeaf (Arr Int32 3)],
            opt_state = PNode [PLeaf (Arr Float32 11), PNone, PNone],
            training_key = Key 7\<rparr>
   \<and> initial_state resuming_trainer (Key 0) None (Some (\<lambda>_. Inr example_model)) =
       Inr \<lparr>step = 42,
            model = PNode [PLeaf (Arr Float32 10), PLeaf (Arr BFloat16 2), PLeaf (Arr Int32 3)],
            opt_state = PNode [PLeaf (Arr Float32 11), PNone, PNone],
            training_key = Key 7\<rparr>
   \<and> initial_state example_trainer (Key 0) (Some example_model) None =
       Inr \<lparr>step = 0,
            model = PNode [PLeaf (Arr Float32 1), PLeaf (Arr BFloat16 2), PLeaf (Arr Int32 3)],
            opt_state = PNode [PLeaf (Arr Float32 1), PNone, PNone],
            training_key = Key 0\<rparr>"
proof -
  have "mp (config resuming_trainer) =
          \<lparr>param_dtype = Float32, compute_dtype = BFloat16, output_dtype = Float32\<rparr>"
    using like_resuming_trainer unfolding like_example_def by blast
  then show ?thesis
    by (simp add: resuming_with_model resuming_with_init example_initial_state_from)
qed

section \<open>One training step\<close>








section \<open>Training from a state at or past the last step\<close>

text \<open>
  C10. For a state whose step is already at least \<open>num_train_steps\<close>,
  \<open>training_steps\<close> yields no \<open>StepInfo\<close> and ends without an exception, touching
  nothing, and \<open>train\<close> raises \<open>UnboundLocalError\<close> (the loop variable \<open>info\<close> was
  never bound), with and without hooks, instead of returning a result.
\<close>

theorem train_past_last_step:
  assumes "num_train_steps (config tr) \<le> step st"
  shows "training_steps tr st train_loader i run w dev = ([], w, dev, None)
     \<and> train tr st train_loader run w dev = (w, dev, Inl (UnboundLocalError ''info''))"
proof -
  from assms have "training_steps tr st train_loader j run w dev = ([], w, dev, None)" for j
    by (simp add: training_steps.simps)
  then show ?thesis
    by (simp add: train_def)
qed

theorem train_past_last_step_witness:
  "num_train_steps (config resuming_trainer) \<le> 42
   \<and> training_steps resuming_trainer
       \<lparr>step = 42,
        model = PNode [PLeaf (Arr Float32 10), PLeaf (Arr Float32 2), PLeaf (Arr Int32 3)],
        opt_state = PNode [PLeaf (Arr Float32 11), PNone, PNone],
        training_key = Key 7\<rparr> (\<lambda>i. Some i) 0 True [] \<lparr>next_array = 12, deleted = {}\<rparr> =
       ([], [], \<lparr>next_array = 12, deleted = {}\<rparr>, None)
   \<and> train resuming_trainer
       \<lparr>step = 42,
        model = PNode [PLeaf (Arr Float32 10), PLeaf (Arr Float32 2), PLeaf (Arr Int32 3)],
        opt_state = PNode [PLeaf (Arr Float32 11), PNone, PNone],
        training_key = Key 7\<rparr> (\<lambda>i. Some i) True [] \<lparr>next_array = 12, deleted = {}\<rparr> =
       ([], \<lparr>next_array = 12, deleted = {}\<rparr>, Inl (UnboundLocalError ''info''))"
proof -
  have n: "num_train_steps (config resuming_trainer) = 10"
    by (simp add: resuming_trainer_def example_trainer_def example_config_def)
  then have "num_train_steps (config resuming_trainer)
      \<le> step \<lparr>step = 42,
        model = PNode [PLeaf (Arr Float32 10), PLeaf (Arr Float32 2), PLeaf (Arr Int32 3)],
        opt_state = PNode [PLeaf (Arr Float32 11), PNone, PNone],
        training_key = Key 7\<rparr>"
    by simp
  from train_past_last_step
         [OF this, of "\<lambda>i. Some i" 0 True "[]" "\<lparr>next_array = 12, deleted = {}\<rparr>"] n
  show ?thesis by simp
qed

section \<open>The learning-rate schedule\<close>

lemma valof_float_0 [simp]: "valof float_0 = 0"
  by (simp add: valof_def float_0_def)

lemma valof_float_1 [simp]: "valof float_1 = 1"
  by (simp add: valof_def float_1_def)

lemma linear_ramp:
  assumes "0 < ws" "0 \<le> t" "t \<le> ws"
  shows "schedule_at (LinearSchedule float_0 (Finite lr) ws) t =
           Some (valof lr * of_int t / of_int ws)"
proof -
  from assms have c: "max 0 (min t ws) = t" by simp
  from assms have nz: "(of_int ws :: real) \<noteq> 0" by simp
  show ?thesis
    using assms(1) nz by (simp add: c Let_def field_simps)
qed

lemma cosine_at_start:
  "0 < d \<Longrightarrow> schedule_at (CosineDecaySchedule lr d a) 0 = Some (valof lr)"
  by (simp add: Let_def algebra_simps)

lemma cosine_at_end:
  assumes "0 < d" "d \<le> t"
  shows "schedule_at (CosineDecaySchedule lr d a) t = Some (valof lr * valof a)"
proof -
  from assms have c: "min t d = d" by simp
  from assms have "pi * of_int d / of_int d = pi" by simp
  then show ?thesis by (simp add: c Let_def)
qed

lemma join_two:
  "schedule_at (JoinSchedules [s1, s2] [b]) t =
     (if t < b then schedule_at s1 t else schedule_at s2 (t - b))"
  by simp

text \<open>
  The number of warmup steps follows double arithmetic, not exact arithmetic. The float
  0.3 is a little below 3/10, and its product with 10 rounds to 3.0, so \<open>int\<close> gives
  3. The float 0.29 is a little below 29/100, and its product with 100 rounds to
  28.999999999999996, so \<open>int\<close> gives 28.
\<close>

lemma warmup_steps_of_double_arithmetic:
  "warmup_steps_of \<lparr>learning_rate = float_1, min_lr_ratio = float_0,
                     warmup_ratio = float_0_3, lr_schedule = ''cosine''\<rparr> 10 = Inr 3"
  "warmup_steps_of \<lparr>learning_rate = float_1, min_lr_ratio = float_0,
                     warmup_ratio = float_0_29, lr_schedule = ''cosine''\<rparr> 100 = Inr 28"
  by (simp_all add: warmup_steps_of_def float_of_int_def float_mul_def round_to_double_def
        python_int_def bit_length.simps Let_def float_0_3_def float_0_29_def)

lemma example_floats:
  "is_double float_0_3" "is_double float_0_29" "is_double float_0_75"
  "valof float_0_3 < 3 / 10" "valof float_0_29 < 29 / 100" "valof float_0_75 = 3 / 4"
  by (simp_all add: is_double_def valof_def float_0_3_def float_0_29_def float_0_75_def)

lemma warmup_steps_0_75:
  "warmup_steps_of \<lparr>learning_rate = float_1, min_lr_ratio = float_0,
                     warmup_ratio = float_0_75, lr_schedule = ''cosine''\<rparr> 5 = Inr 3"
  by (simp add: warmup_steps_of_def float_of_int_def float_mul_def round_to_double_def
        python_int_def bit_length.simps Let_def float_0_75_def)

text \<open>
  C3, as stated, fails on the code: the number of warmup steps is
  \<open>int(warmup_ratio * num_train_steps)\<close>, truncated, not rounded. With a warmup ratio of
  0.75 and 5 training steps the product is 3.75 exactly: the code warms up over 3 steps
  and decays over the remaining 2, where rounding gives 4, and the rate is already
  \<open>learning_rate\<close> at step 3.
\<close>

theorem lr_scheduler_truncates_counterexample:
  "round (valof float_0_75 * 5) = 4
   \<and> lr_scheduler \<lparr>learning_rate = float_1, min_lr_ratio = float_0,
                    warmup_ratio = float_0_75, lr_schedule = ''cosine''\<rparr> 5 =
       Inr (JoinSchedules [LinearSchedule float_0 (Finite float_1) 3,
                           CosineDecaySchedule float_1 2 float_0] [3])
   \<and> schedule_at (JoinSchedules [LinearSchedule float_0 (Finite float_1) 3,
                                 CosineDecaySchedule float_1 2 float_0] [3]) 3 = Some 1"
proof -
  have r: "round (valof float_0_75 * 5) = 4"
    by (simp add: example_floats round_def)
  have s: "lr_scheduler \<lparr>learning_rate = float_1, min_lr_ratio = float_0,
                    warmup_ratio = float_0_75, lr_schedule = ''cosine''\<rparr> 5 =
       Inr (JoinSchedules [LinearSchedule float_0 (Finite float_1) 3,
                           CosineDecaySchedule float_1 2 float_0] [3])"
    by (simp add: lr_scheduler_def warmup_steps_0_75 cosine_decay_schedule_def Let_def)
  have v: "schedule_at (JoinSchedules [LinearSchedule float_0 (Finite float_1) 3,
                                 CosineDecaySchedule float_1 2 float_0] [3]) 3 = Some 1"
    by simp
  from r s v show ?thesis by blast
qed

text \<open>
  The linear kind: the decay runs over \<open>lr_decay_steps - warmup_steps\<close>, that is
  \<open>num_train_steps - 2 * warmup_steps\<close> steps, where the cosine kind is given
  \<open>lr_decay_steps\<close>. With a ratio of 0.25 and 8 steps the warmup takes 2 steps and the
  linear decay 4, not the remaining 6.
\<close>

lemma lr_scheduler_linear_decay_steps:
  "lr_scheduler \<lparr>learning_rate = float_1, min_lr_ratio = float_0,
                  warmup_ratio = float_0_25, lr_schedule = ''linear''\<rparr> 8 =
     Inr (JoinSchedules [LinearSchedule float_0 (Finite float_1) 2,
                         LinearSchedule float_1 (Finite float_0) 4] [2])"
proof -
  have w: "warmup_steps_of \<lparr>learning_rate = float_1, min_lr_ratio = float_0,
                  warmup_ratio = float_0_25, lr_schedule = ''linear''\<rparr> 8 = Inr 2"
    by (simp add: warmup_steps_of_def float_of_int_def float_mul_def round_to_double_def
          python_int_def bit_length.simps Let_def float_0_25_def)
  have m: "float_mul float_1 float_0 = Finite float_0"
    by (simp add: float_mul_def round_to_double_def float_1_def float_0_def)
  show ?thesis
    by (simp add: lr_scheduler_def w m)
qed

text \<open>
  C3, amended. The number of warmup steps is \<open>int(warmup_ratio * num_train_steps)\<close>,
  the float product truncated toward zero. When it is positive, the schedule ramps
  linearly from 0 to \<open>learning_rate\<close> over the warmup steps and reaches
  \<open>learning_rate\<close> at the end of the warmup; after that a constant schedule stays at
  \<open>learning_rate\<close>, and a cosine schedule (when steps remain) follows the cosine decay
  over the remaining \<open>num_train_steps - warmup_steps\<close> steps down to
  \<open>learning_rate * min_lr_ratio\<close>, where it stays. (Nothing is said of the linear
  kind.)
\<close>

theorem lr_scheduler_warmup_then_decay:
  assumes "warmup_steps_of cfg n = Inr ws" and "0 < ws"
  shows "(lr_schedule cfg = ''constant'' \<longrightarrow>
           (\<exists>sched. lr_scheduler cfg n = Inr sched
              \<and> (\<forall>t. 0 \<le> t \<and> t \<le> ws \<longrightarrow>
                     schedule_at sched t =
                       Some (valof (learning_rate cfg) * of_int t / of_int ws))
              \<and> (\<forall>t. ws \<le> t \<longrightarrow> schedule_at sched t = Some (valof (learning_rate cfg)))))
     \<and> (lr_schedule cfg = ''cosine'' \<and> ws < n \<longrightarrow>
           (\<exists>sched. lr_scheduler cfg n = Inr sched
              \<and> (\<forall>t. 0 \<le> t \<and> t \<le> ws \<longrightarrow>
                     schedule_at sched t =
                       Some (valof (learning_rate cfg) * of_int t / of_int ws))
              \<and> (\<forall>t. ws \<le> t \<longrightarrow>
                     schedule_at sched t =
                       schedule_at (CosineDecaySchedule (learning_rate cfg) (n - ws)
                                      (min_lr_ratio cfg)) (t - ws))
              \<and> (\<forall>t. n \<le> t \<longrightarrow>
                     schedule_at sched t =
                       Some (valof (learning_rate cfg) * valof (min_lr_ratio cfg)))))"
proof -
  define lr where "lr = learning_rate cfg"
  note pos = assms(2)
  note ws_eq = assms(1)
  let ?w = "LinearSchedule float_0 (Finite lr) ws"
  have const: "\<exists>sched. lr_scheduler cfg n = Inr sched
              \<and> (\<forall>t. 0 \<le> t \<and> t \<le> ws \<longrightarrow> schedule_at sched t = Some (valof lr * of_int t / of_int ws))
              \<and> (\<forall>t. ws \<le> t \<longrightarrow> schedule_at sched t = Some (valof lr))"
    if k: "lr_schedule cfg = ''constant''"
  proof -
    have s: "lr_scheduler cfg n = Inr (JoinSchedules [?w, ConstantSchedule lr] [ws])"
      using pos k by (simp add: lr_scheduler_def ws_eq Let_def lr_def)
    have ramp: "schedule_at (JoinSchedules [?w, ConstantSchedule lr] [ws]) t
                  = Some (valof lr * of_int t / of_int ws)" if "0 \<le> t" "t \<le> ws" for t
    proof (cases "t < ws")
      case True
      with that pos show ?thesis by (simp only: join_two if_True linear_ramp)
    next
      case False
      with that have "t = ws" by simp
      with pos show ?thesis by simp
    qed
    have after: "schedule_at (JoinSchedules [?w, ConstantSchedule lr] [ws]) t = Some (valof lr)"
      if "ws \<le> t" for t
      using that by simp
    from s ramp after show ?thesis by simp
  qed
  have cosine: "\<exists>sched. lr_scheduler cfg n = Inr sched
              \<and> (\<forall>t. 0 \<le> t \<and> t \<le> ws \<longrightarrow> schedule_at sched t = Some (valof lr * of_int t / of_int ws))
              \<and> (\<forall>t. ws \<le> t \<longrightarrow>
                     schedule_at sched t =
                       schedule_at (CosineDecaySchedule lr (n - ws) (min_lr_ratio cfg)) (t - ws))
              \<and> (\<forall>t. n \<le> t \<longrightarrow> schedule_at sched t = Some (valof lr * valof (min_lr_ratio cfg)))"
    if k: "lr_schedule cfg = ''cosine''" and lt: "ws < n"
  proof -
    let ?c = "CosineDecaySchedule lr (n - ws) (min_lr_ratio cfg)"
    have s: "lr_scheduler cfg n = Inr (JoinSchedules [?w, ?c] [ws])"
      using pos k lt
      by (simp add: lr_scheduler_def ws_eq Let_def lr_def cosine_decay_schedule_def)
    have ramp: "schedule_at (JoinSchedules [?w, ?c] [ws]) t
                  = Some (valof lr * of_int t / of_int ws)" if "0 \<le> t" "t \<le> ws" for t
    proof (cases "t < ws")
      case True
      with that pos show ?thesis by (simp only: join_two if_True linear_ramp)
    next
      case False
      with that have t: "t = ws" by simp
      from lt have "schedule_at ?c 0 = Some (valof lr)" by (intro cosine_at_start) simp
      with pos t show ?thesis by (simp only: join_two) simp
    qed
    have after: "schedule_at (JoinSchedules [?w, ?c] [ws]) t = schedule_at ?c (t - ws)"
      if "ws \<le> t" for t
      using that by (simp only: join_two) simp
    have final: "schedule_at (JoinSchedules [?w, ?c] [ws]) t
                   = Some (valof lr * valof (min_lr_ratio cfg))" if "n \<le> t" for t
    proof -
      from that lt have "ws \<le> t" "0 < n - ws" "n - ws \<le> t - ws" by simp_all
      then show ?thesis
        using after [of t] cosine_at_end [of "n - ws" "t - ws" lr "min_lr_ratio cfg"] by simp
    qed
    from s ramp after final show ?thesis by simp
  qed
  from const cosine show ?thesis
    unfolding lr_def by blast
qed

theorem lr_scheduler_warmup_then_decay_witness:
  "warmup_steps_of \<lparr>learning_rate = float_1, min_lr_ratio = float_0,
                     warmup_ratio = float_0_75, lr_schedule = ''cosine''\<rparr> 5 = Inr 3
   \<and> (\<exists>sched. lr_scheduler \<lparr>learning_rate = float_1, min_lr_ratio = float_0,
                             warmup_ratio = float_0_75, lr_schedule = ''cosine''\<rparr> 5 = Inr sched
         \<and> schedule_at sched 0 = Some 0 \<and> schedule_at sched 3 = Some 1
         \<and> schedule_at sched 5 = Some 0)"
proof -
  let ?cfg = "\<lparr>learning_rate = float_1, min_lr_ratio = float_0,
                     warmup_ratio = float_0_75, lr_schedule = ''cosine''\<rparr>"
  note w = warmup_steps_0_75
  have v: "valof float_1 = 1" "valof float_0 = 0"
    by simp_all
  from lr_scheduler_warmup_then_decay [OF w]
  obtain sched where s: "lr_scheduler ?cfg 5 = Inr sched"
    and ramp: "\<forall>t. 0 \<le> t \<and> t \<le> 3 \<longrightarrow> schedule_at sched t = Some (1 * of_int t / of_int 3)"
    and final: "\<forall>t. 5 \<le> t \<longrightarrow> schedule_at sched t = Some (1 * 0)"
    by (auto simp: v)
  have "schedule_at sched 0 = Some 0" using spec [OF ramp, of 0] by simp
  moreover have "schedule_at sched 3 = Some 1" using spec [OF ramp, of 3] by simp
  moreover have "schedule_at sched 5 = Some 0" using spec [OF final, of 5] by simp
  ultimately show ?thesis using w s by blast
qed

end
